theory Spec2Isabelle
  imports Complex_Main
begin

chapter \<open>The model of the program\<close>

section \<open>Module size information (fairseq2/utils/log.py)\<close>

text \<open>
  \<open>ModuleSizeInfo\<close> is a keyword-only dataclass of eight Python integers, each with
  default \<open>0\<close>.
\<close>

record ModuleSizeInfo =
  param_size :: int
  param_size_bytes :: int
  trainable_param_size :: int
  trainable_param_size_bytes :: int
  buffer_size :: int
  buffer_size_bytes :: int
  total_size :: int
  total_size_bytes :: int

text \<open>
  The keyword-only constructor: an argument that is not passed (\<open>None\<close> here) takes the
  default of its field.
\<close>

definition ModuleSizeInfo_init ::
  "int option \<Rightarrow> int option \<Rightarrow> int option \<Rightarrow> int option \<Rightarrow>
   int option \<Rightarrow> int option \<Rightarrow> int option \<Rightarrow> int option \<Rightarrow> ModuleSizeInfo" where
  "ModuleSizeInfo_init ps psb tps tpsb bs bsb ts tsb =
     \<lparr> param_size = (case ps of None \<Rightarrow> 0 | Some v \<Rightarrow> v),
       param_size_bytes = (case psb of None \<Rightarrow> 0 | Some v \<Rightarrow> v),
       trainable_param_size = (case tps of None \<Rightarrow> 0 | Some v \<Rightarrow> v),
       trainable_param_size_bytes = (case tpsb of None \<Rightarrow> 0 | Some v \<Rightarrow> v),
       buffer_size = (case bs of None \<Rightarrow> 0 | Some v \<Rightarrow> v),
       buffer_size_bytes = (case bsb of None \<Rightarrow> 0 | Some v \<Rightarrow> v),
       total_size = (case ts of None \<Rightarrow> 0 | Some v \<Rightarrow> v),
       total_size_bytes = (case tsb of None \<Rightarrow> 0 | Some v \<Rightarrow> v) \<rparr>"

text \<open>
  What \<open>get_module_size_info\<close> reads of a tensor. \<open>numel()\<close> and \<open>element_size()\<close>
  are element and byte counts of the tensor library, hence natural numbers; for a
  \<open>DTensor\<close>, \<open>local_numel\<close> is \<open>tensor.detach().to_local().numel()\<close>.
\<close>

record tensor =
  is_dtensor :: bool
  numel :: nat
  local_numel :: nat
  element_size :: nat
  requires_grad :: bool

text \<open>
  \<open>module.parameters()\<close> and \<open>module.buffers()\<close> in iteration order; the source allows
  \<open>None\<close> entries and skips them.
\<close>

record module =
  parameters :: "tensor option list"
  buffers :: "tensor option list"

definition get_numel :: "tensor \<Rightarrow> int" where
  "get_numel t = (if is_dtensor t then int (local_numel t) else int (numel t))"

text \<open>One pass of the first loop body.\<close>

definition param_step :: "ModuleSizeInfo \<Rightarrow> tensor option \<Rightarrow> ModuleSizeInfo" where
  "param_step info p =
     (case p of
        None \<Rightarrow> info
      | Some param \<Rightarrow>
          (let n = get_numel param;
               size_bytes = n * int (element_size param);
               info1 = info\<lparr> param_size := param_size info + n,
                             param_size_bytes := param_size_bytes info + size_bytes \<rparr>;
               info2 = (if requires_grad param
                        then info1\<lparr> trainable_param_size := trainable_param_size info1 + n,
                                    trainable_param_size_bytes :=
                                      trainable_param_size_bytes info1 + size_bytes \<rparr>
                        else info1)
           in info2\<lparr> total_size := total_size info2 + n,
                      total_size_bytes := total_size_bytes info2 + size_bytes \<rparr>))"

text \<open>One pass of the second loop body; it calls \<open>buffer.numel()\<close> directly.\<close>

definition buffer_step :: "ModuleSizeInfo \<Rightarrow> tensor option \<Rightarrow> ModuleSizeInfo" where
  "buffer_step info b =
     (case b of
        None \<Rightarrow> info
      | Some buffer \<Rightarrow>
          (let n = int (numel buffer);
               size_bytes = n * int (element_size buffer)
           in info\<lparr> buffer_size := buffer_size info + n,
                     buffer_size_bytes := buffer_size_bytes info + size_bytes,
                     total_size := total_size info + n,
                     total_size_bytes := total_size_bytes info + size_bytes \<rparr>))"

definition get_module_size_info :: "module \<Rightarrow> ModuleSizeInfo" where
  "get_module_size_info m =
     foldl buffer_step
       (foldl param_step
          (ModuleSizeInfo_init None None None None None None None None)
          (parameters m))
       (buffers m)"

section \<open>Exceptions\<close>

text \<open>
  The exception classes that the modelled code raises, catches or lets through. A raise is
  a value of this type; \<open>raise X(...) from ex\<close> stores \<open>ex\<close> as the cause of \<open>X\<close>.
  \<open>FileNotFoundError\<close> is a subclass of \<open>OSError\<close> in Python: the constructor
  \<open>OSError\<close> stands for every other \<open>OSError\<close>, and \<open>OtherError\<close> for an exception of
  any class that no handler of the modelled code names.
\<close>

datatype pyerror =
    StructureError string "pyerror option"
  | AssetCardError string string "pyerror option"
  | OperationalError pyerror
  | InternalError string "pyerror option"
  | NotSupportedError string
  | TypeError string
  | ValueError string
  | TokenizerModelError string string
  | FileNotFoundError string
  | OSError string
  | LookupError string
  | OtherError string

section \<open>Module lists with random dropping (fairseq2/nn/module_list.py)\<close>

text \<open>
  A Python float: a finite value, an infinity or a NaN. The source only compares floats
  with \<open>>\<close>, which is false as soon as one side is a NaN.
\<close>

datatype pyfloat = Finite real | PosInf | NegInf | NaN

fun float_gt :: "pyfloat \<Rightarrow> pyfloat \<Rightarrow> bool" where
  "float_gt NaN y = False"
| "float_gt x NaN = False"
| "float_gt (Finite a) (Finite b) = (a > b)"
| "float_gt (Finite a) PosInf = False"
| "float_gt (Finite a) NegInf = True"
| "float_gt PosInf PosInf = False"
| "float_gt PosInf y = True"
| "float_gt NegInf y = False"

text \<open>
  \<open>torch.rand(n)\<close> draws \<open>n\<close> samples from the random generator, whose state \<open>'g\<close> is
  threaded through; \<open>draw\<close> is one sample.
\<close>

fun torch_rand :: "('g \<Rightarrow> pyfloat \<times> 'g) \<Rightarrow> nat \<Rightarrow> 'g \<Rightarrow> pyfloat list \<times> 'g" where
  "torch_rand draw 0 g = ([], g)"
| "torch_rand draw (Suc n) g =
     (case draw g of (x, g1) \<Rightarrow> (case torch_rand draw n g1 of (xs, g2) \<Rightarrow> (x # xs, g2)))"

text \<open>
  A \<open>ModuleList\<close>: the submodules that \<open>nn.ModuleList\<close> holds, in insertion order, the
  drop probability, and the \<open>training\<close> flag of \<open>nn.Module\<close>.
\<close>

record 'm ModuleList =
  submodules :: "'m list"
  drop_p :: pyfloat
  training :: bool

text \<open>
  \<open>__iter__\<close>: the list of the modules it yields, and the generator state afterwards.
\<close>

definition ModuleList_iter ::
  "('g \<Rightarrow> pyfloat \<times> 'g) \<Rightarrow> 'm ModuleList \<Rightarrow> 'g \<Rightarrow> 'm list \<times> 'g" where
  "ModuleList_iter draw self g =
     (case (if float_gt (drop_p self) (Finite 0) \<and> training self
            then (case torch_rand draw (length (submodules self)) g of
                    (ps, g1) \<Rightarrow> (Some ps, g1))
            else (None, g)) of
        (prob_dist, g') \<Rightarrow>
          (map snd
             (filter
                (\<lambda>(idx, m). case prob_dist of
                               None \<Rightarrow> True
                             | Some ps \<Rightarrow> float_gt (ps ! idx) (drop_p self))
                (enumerate 0 (submodules self))),
           g'))"

section \<open>Dataset options (fairseq2/datasets/config.py)\<close>

datatype Batching =
    StaticBatching (batch_size: int)
  | LengthBatching (max_num_elements: int)



record DataReadOptions =
  example_shuffle_window :: int
  batch_shuffle_window :: int
  drop_remainder :: bool
  sync_batches :: bool
  sync_mode :: string
  max_num_batches :: "int option"
  num_accumulate :: int
  num_prefetch :: int
  seed :: int
  extras :: nat


section \<open>The generic speech dataset (fairseq2/datasets/speech.py)\<close>

datatype DataType = torch_float32 | torch_dtype string

record SpeechReadOptions = DataReadOptions +
  dtype :: DataType
  normalize_audio :: bool

text \<open>\<open>GenericSpeechDataset\<close> has no fields.\<close>

datatype GenericSpeechDataset = GenericSpeechDataset

definition from_path :: "string \<Rightarrow> string option \<Rightarrow> GenericSpeechDataset" where
  "from_path path name = GenericSpeechDataset"

text \<open>
  \<open>create_reader\<close> in a world \<open>'w\<close> (everything a reader could touch): the result is the
  raised exception or the reader, with the world afterwards.
\<close>

definition create_reader ::
  "GenericSpeechDataset \<Rightarrow> string \<Rightarrow> 'gang \<Rightarrow> int \<Rightarrow> int \<Rightarrow> Batching \<Rightarrow>
   SpeechReadOptions option \<Rightarrow> 'w \<Rightarrow> (pyerror + 'reader) \<times> 'w" where
  "create_reader self split gang min_audio_len max_audio_len batching options w =
     (Inl (NotSupportedError ''not supported yet.''), w)"

definition splits :: "GenericSpeechDataset \<Rightarrow> string set" where
  "splits self = {}"

section \<open>Tokenizer family handlers (fairseq2/data/tokenizers/handler.py)\<close>

text \<open>
  Of a URI the handler reads the scheme only. Of an asset card it reads \<open>card.name\<close> and
  \<open>card.field("tokenizer").as_uri()\<close>, which raises when the card has no such field or
  the field is not a URI.
\<close>

record uri =
  scheme :: string
  uri_rest :: string

record AssetCard =
  card_name :: string
  card_tokenizer_uri :: "pyerror + uri"

text \<open>
  A configuration object carries its class, the classes its class derives from, and its
  content. A configuration class is its name and what calling it without arguments does:
  it returns the default configuration or raises.
\<close>

record 'a config_obj =
  obj_type :: string
  obj_bases :: "string list"
  obj_value :: 'a

record 'a config_class =
  kls_name :: string
  kls_call :: "pyerror + 'a config_obj"

definition isinstance :: "'a config_obj \<Rightarrow> 'a config_class \<Rightarrow> bool" where
  "isinstance config kls \<longleftrightarrow>
     obj_type config = kls_name kls \<or> kls_name kls \<in> set (obj_bases config)"

text \<open>How Python prints a class in an f-string.\<close>

definition class_repr :: "string \<Rightarrow> string" where
  "class_repr n = ''<class '' @ [CHR 0x27] @ n @ [CHR 0x27] @ ''>''"

text \<open>
  The collaborators of the handler. Each call runs in a world \<open>'w\<close> (file system, network,
  caches) and returns the raised exception or the result, with the world afterwards.
\<close>

type_synonym ('a, 'tok, 'w) TokenizerLoader =
  "string \<Rightarrow> 'a config_obj \<Rightarrow> 'w \<Rightarrow> (pyerror + 'tok) \<times> 'w"

type_synonym ('a, 'w) AssetConfigLoader =
  "AssetCard \<Rightarrow> 'a config_obj \<Rightarrow> string \<Rightarrow> 'w \<Rightarrow> (pyerror + 'a config_obj) \<times> 'w"

record 'w AssetDownloadManager =
  supported_schemes :: "string set"
  download_tokenizer :: "uri \<Rightarrow> string \<Rightarrow> bool \<Rightarrow> 'w \<Rightarrow> (pyerror + string) \<times> 'w"

record ('a, 'tok, 'fs, 'w) StandardTokenizerFamilyHandler =
  h_family :: string
  h_config_kls :: "'a config_class"
  h_loader :: "('a, 'tok, 'w) TokenizerLoader"
  h_file_system :: 'fs
  h_asset_download_manager :: "'w AssetDownloadManager"
  h_asset_config_loader :: "('a, 'w) AssetConfigLoader"

text \<open>The two properties of the handler.\<close>

definition family :: "('a, 'tok, 'fs, 'w) StandardTokenizerFamilyHandler \<Rightarrow> string" where
  "family self = h_family self"


text \<open>
  Modelled from the spec: \<open>raise_operational_system_error\<close> of \<open>fairseq2.error\<close>, which is
  not among the source files. It never returns: it raises the operational error of the
  system, chained from the exception it is given.
\<close>

definition raise_operational_system_error :: "pyerror \<Rightarrow> pyerror" where
  "raise_operational_system_error ex = OperationalError ex"

definition get_tokenizer_config ::
  "('a, 'tok, 'fs, 'w) StandardTokenizerFamilyHandler \<Rightarrow> AssetCard \<Rightarrow> 'w \<Rightarrow>
   (pyerror + 'a config_obj) \<times> 'w" where
  "get_tokenizer_config self acard w =
     (case kls_call (h_config_kls self) of
        Inl (TypeError m) \<Rightarrow>
          (Inl (InternalError
                  (''Default configuration of the '' @ h_family self @
                   '' tokenizer family cannot be constructed.'')
                  (Some (TypeError m))), w)
      | Inl e \<Rightarrow> (Inl e, w)
      | Inr default_config \<Rightarrow>
          h_asset_config_loader self acard default_config ''tokenizer_config'' w)"

text \<open>
  The \<open>except\<close> clauses around the call of the loader in \<open>load_tokenizer\<close>, in the order
  of the source: the exception that leaves \<open>load_tokenizer\<close> when the loader raised \<open>ex\<close>.
\<close>

definition load_tokenizer_except ::
  "string \<Rightarrow> string \<Rightarrow> uri \<Rightarrow> string \<Rightarrow> bool \<Rightarrow> pyerror \<Rightarrow> pyerror" where
  "load_tokenizer_except name fam u path has_custom_config ex =
     (case ex of
        ValueError m \<Rightarrow>
          if has_custom_config then ex
          else AssetCardError name
                 (''tokenizer_config field of the '' @ name @ '' asset card is not a valid '' @
                  fam @ '' tokenizer configuration.'')
                 (Some ex)
      | TokenizerModelError p m \<Rightarrow>
          AssetCardError name
            (''Tokenizer model of the '' @ name @ '' asset card cannot be loaded.'')
            (Some ex)
      | FileNotFoundError m \<Rightarrow>
          if scheme u \<noteq> ''file'' then raise_operational_system_error ex
          else AssetCardError name
                 (path @ '' pointed to by the tokenizer field of the '' @ name @
                  '' asset card is not found.'')
                 None
      | OSError m \<Rightarrow> raise_operational_system_error ex
      | _ \<Rightarrow> ex)"

definition load_tokenizer ::
  "('a, 'tok, 'fs, 'w) StandardTokenizerFamilyHandler \<Rightarrow> AssetCard \<Rightarrow>
   'a config_obj option \<Rightarrow> bool \<Rightarrow> 'w \<Rightarrow> (pyerror + 'tok) \<times> 'w" where
  "load_tokenizer self acard config progress w =
     (case card_tokenizer_uri acard of
        Inl e \<Rightarrow> (Inl e, w)
      | Inr u \<Rightarrow>
          if scheme u \<notin> supported_schemes (h_asset_download_manager self) then
            (Inl (AssetCardError (card_name acard)
                    (''tokenizer URI scheme of the '' @ card_name acard @
                     '' asset card is expected to be a supported scheme, but is '' @
                     scheme u @ '' instead.'')
                    None), w)
          else
            (case download_tokenizer (h_asset_download_manager self) u (card_name acard)
                    progress w of
               (Inl e, w1) \<Rightarrow> (Inl e, w1)
             | (Inr path, w1) \<Rightarrow>
                 (case (case config of
                          None \<Rightarrow>
                            (case get_tokenizer_config self acard w1 of
                               (Inl e, w2) \<Rightarrow> (Inl e, w2)
                             | (Inr c, w2) \<Rightarrow> (Inr (c, False), w2))
                        | Some c \<Rightarrow>
                            if \<not> isinstance c (h_config_kls self) then
                              (Inl (TypeError
                                      (''`config` must be of type `'' @
                                       class_repr (kls_name (h_config_kls self)) @
                                       ''`, but is of type `'' @
                                       class_repr (obj_type c) @ ''` instead.'')), w1)
                            else (Inr (c, True), w1)) of
                    (Inl e, w2) \<Rightarrow> (Inl e, w2)
                  | (Inr (c, has_custom_config), w2) \<Rightarrow>
                      (case h_loader self path c w2 of
                         (Inr tokenizer, w3) \<Rightarrow> (Inr tokenizer, w3)
                       | (Inl ex, w3) \<Rightarrow>
                           (Inl (load_tokenizer_except (card_name acard) (h_family self) u
                                   path has_custom_config ex), w3)))))"


text \<open>
  What \<open>resolver.resolve\<close> answers for the three interfaces that \<open>create_handler\<close> asks
  for.
\<close>

record ('a, 'fs, 'w) DependencyResolver =
  resolve_FileSystem :: 'fs
  resolve_AssetDownloadManager :: "'w AssetDownloadManager"
  resolve_AssetConfigLoader :: "('a, 'w) AssetConfigLoader"

type_synonym ('a, 'tok, 'fs, 'w) AdvancedTokenizerLoader =
  "('a, 'fs, 'w) DependencyResolver \<Rightarrow> string \<Rightarrow> 'a config_obj \<Rightarrow> 'w \<Rightarrow>
   (pyerror + 'tok) \<times> 'w"

text \<open>
  The closure \<open>create_handler\<close> of \<open>register_tokenizer_family\<close>, with the variables it
  captures as its first four arguments.
\<close>

definition create_handler ::
  "string \<Rightarrow> 'a config_class \<Rightarrow> ('a, 'tok, 'w) TokenizerLoader option \<Rightarrow>
   ('a, 'tok, 'fs, 'w) AdvancedTokenizerLoader option \<Rightarrow> ('a, 'fs, 'w) DependencyResolver \<Rightarrow>
   pyerror + ('a, 'tok, 'fs, 'w) StandardTokenizerFamilyHandler" where
  "create_handler fam kls loader advanced_loader resolver =
     (case (case advanced_loader of
              Some adv \<Rightarrow>
                (case loader of
                   Some l \<Rightarrow>
                     Inl (ValueError
                       ''`loader` and `advanced_loader` must not be specified at the same time.'')
                 | None \<Rightarrow> Inr (\<lambda>path config. adv resolver path config))
            | None \<Rightarrow>
                (case loader of
                   None \<Rightarrow> Inl (ValueError ''`loader` or `advanced_loader` must be specified.'')
                 | Some l \<Rightarrow> Inr l)) of
        Inl e \<Rightarrow> Inl e
      | Inr l \<Rightarrow>
          Inr \<lparr> h_family = fam,
                h_config_kls = kls,
                h_loader = l,
                h_file_system = resolve_FileSystem resolver,
                h_asset_download_manager = resolve_AssetDownloadManager resolver,
                h_asset_config_loader = resolve_AssetConfigLoader resolver \<rparr>)"





text \<open>
  A small tokenizer family for concrete runs. The world is a log of the calls made: the
  download manager supports \<open>file\<close> and \<open>https\<close> and logs \<open>download\<close>, the
  configuration loader returns the default configuration and logs \<open>config\<close>, and the
  loader logs \<open>load\<close> and raises the exception it is built with.
\<close>

definition spm_config :: "nat config_obj" where
  "spm_config = \<lparr> obj_type = ''SentencePieceConfig'', obj_bases = [''object''], obj_value = 0 \<rparr>"

definition other_config :: "nat config_obj" where
  "other_config = \<lparr> obj_type = ''CharTokenizerConfig'', obj_bases = [''object''], obj_value = 1 \<rparr>"

definition spm_kls :: "nat config_class" where
  "spm_kls = \<lparr> kls_name = ''SentencePieceConfig'', kls_call = Inr spm_config \<rparr>"

definition log_download_manager :: "string list AssetDownloadManager" where
  "log_download_manager =
     \<lparr> supported_schemes = {''file'', ''https''},
       download_tokenizer = (\<lambda>u name progress w. (Inr (''/cache/'' @ uri_rest u), w @ [''download''])) \<rparr>"

definition log_config_loader :: "(nat, string list) AssetConfigLoader" where
  "log_config_loader = (\<lambda>acard default_config config_key w. (Inr default_config, w @ [''config'']))"


definition raising_loader :: "pyerror \<Rightarrow> (nat, string, string list) TokenizerLoader" where
  "raising_loader ex = (\<lambda>path config w. (Inl ex, w @ [''load'']))"

definition spm_handler ::
  "pyerror \<Rightarrow> (nat, string, unit, string list) StandardTokenizerFamilyHandler" where
  "spm_handler ex =
     \<lparr> h_family = ''sentencepiece'',
       h_config_kls = spm_kls,
       h_loader = raising_loader ex,
       h_file_system = (),
       h_asset_download_manager = log_download_manager,
       h_asset_config_loader = log_config_loader \<rparr>"

definition tok_card :: "string \<Rightarrow> AssetCard" where
  "tok_card sch =
     \<lparr> card_name = ''mytok'',
       card_tokenizer_uri = Inr \<lparr> scheme = sch, uri_rest = ''tok.model'' \<rparr> \<rparr>"

section \<open>The configuration processor (fairseq2/utils/config.py)\<close>

text \<open>
  Configuration objects refer to each other, and nothing in Python keeps an object from
  being reachable from one of its own fields. The objects therefore live in a heap, at
  addresses. Of an object the processor reads whether its type is a dataclass, the type,
  and for each field of the type, in declaration order, the name and the address of the
  value.
\<close>

datatype pyobj =
    NotDataclass
  | DataclassInstance string "(string \<times> nat) list"

type_synonym heap = "nat \<Rightarrow> pyobj"

text \<open>
  A section handler processes the object at an address in a world \<open>'w\<close> (everything it
  can touch but the shape of the configuration): it raises or returns, and leaves a new
  world. The provider \<open>_section_handlers\<close> maps a dataclass type to its handler;
  \<open>get\<close> raises \<open>LookupError\<close> for a type with no entry.
\<close>

type_synonym 'w ConfigSectionHandler = "nat \<Rightarrow> 'w \<Rightarrow> pyerror option \<times> 'w"

type_synonym 'w Provider = "string \<rightharpoonup> 'w ConfigSectionHandler"

text \<open>
  The outcome of a call of \<open>process\<close>: \<open>None\<close> when the call does not return within the
  given recursion depth, otherwise the raised exception (or \<open>None\<close> for a normal return)
  and the world afterwards.
\<close>

type_synonym 'w outcome = "(pyerror option \<times> 'w) option"

text \<open>
  The \<open>for\<close> loop over the fields; \<open>recurse\<close> is the recursive call \<open>self.process\<close>.
\<close>

fun process_fields ::
  "(nat \<Rightarrow> 'w \<Rightarrow> 'w outcome) \<Rightarrow> (string \<times> nat) list \<Rightarrow> 'w \<Rightarrow> 'w outcome" where
  "process_fields recurse [] w = Some (None, w)"
| "process_fields recurse ((field_name, field_value) # rest) w =
     (case recurse field_value w of
        None \<Rightarrow> None
      | Some (None, w') \<Rightarrow> process_fields recurse rest w'
      | Some (Some (StructureError m c), w') \<Rightarrow>
          Some (Some (StructureError
                        (''`'' @ field_name @
                         ''` cannot be structured. See the nested exception for details.'')
                        (Some (StructureError m c))), w')
      | Some (Some ex, w') \<Rightarrow> Some (Some ex, w'))"

text \<open>
  The \<open>try\<close> statement that looks the section handler up: the \<open>LookupError\<close> of \<open>get\<close>
  is passed over, and the handler that \<open>get\<close> returns is called in the \<open>else\<close> branch,
  where nothing catches what it raises.
\<close>

definition run_section_handler ::
  "'w Provider \<Rightarrow> string \<Rightarrow> nat \<Rightarrow> 'w \<Rightarrow> pyerror option \<times> 'w" where
  "run_section_handler section_handlers kls config w =
     (case section_handlers kls of
        None \<Rightarrow> (None, w)
      | Some section_handler \<Rightarrow> section_handler config w)"

text \<open>
  \<open>StandardConfigProcessor.process\<close>, with the recursion depth that it may use as its
  first argument.
\<close>

primrec process :: "nat \<Rightarrow> heap \<Rightarrow> 'w Provider \<Rightarrow> nat \<Rightarrow> 'w \<Rightarrow> 'w outcome" where
  "process 0 H section_handlers config w = None"
| "process (Suc depth) H section_handlers config w =
     (case H config of
        NotDataclass \<Rightarrow> Some (None, w)
      | DataclassInstance kls flds \<Rightarrow>
          (case run_section_handler section_handlers kls config w of
             (Some ex, w') \<Rightarrow> Some (Some ex, w')
           | (None, w') \<Rightarrow> process_fields (process depth H section_handlers) flds w'))"





text \<open>
  A small configuration for concrete runs: a recipe configuration at address \<open>0\<close> with a
  model section, a plain integer and a dataset section; the sections have one plain field
  each. The handlers below log their calls in a world that is a list of strings.
\<close>

definition recipe_heap :: heap where
  "recipe_heap a =
     (if a = 0 then
        DataclassInstance ''RecipeConfig'' [(''model'', 1), (''max_steps'', 2), (''dataset'', 3)]
      else if a = 1 then DataclassInstance ''ModelSection'' [(''name'', 4)]
      else if a = 3 then DataclassInstance ''DatasetSection'' [(''path'', 5)]
      else NotDataclass)"


definition failing_handlers :: "pyerror \<Rightarrow> string list Provider" where
  "failing_handlers ex =
     [''RecipeConfig'' \<mapsto> (\<lambda>a w. (None, w @ [''recipe''])),
      ''DatasetSection'' \<mapsto> (\<lambda>a w. (Some ex, w @ [''dataset'']))]"

text \<open>An object that is the value of its own field.\<close>

definition cyclic_heap :: heap where
  "cyclic_heap a = DataclassInstance ''Node'' [(''next'', a)]"

chapter \<open>Verification\<close>

section \<open>Properties of the size information\<close>

text \<open>The relations between the eight counters that both loops maintain.\<close>

definition size_info_ok :: "ModuleSizeInfo \<Rightarrow> bool" where
  "size_info_ok info \<longleftrightarrow>
     total_size info = param_size info + buffer_size info \<and>
     total_size_bytes info = param_size_bytes info + buffer_size_bytes info \<and>
     trainable_param_size info \<le> param_size info \<and>
     trainable_param_size_bytes info \<le> param_size_bytes info \<and>
     0 \<le> param_size info \<and> 0 \<le> param_size_bytes info \<and>
     0 \<le> trainable_param_size info \<and> 0 \<le> trainable_param_size_bytes info \<and>
     0 \<le> buffer_size info \<and> 0 \<le> buffer_size_bytes info \<and>
     0 \<le> total_size info \<and> 0 \<le> total_size_bytes info"

lemma get_numel_nonneg: "0 \<le> get_numel t"
  by (simp add: get_numel_def)

lemma param_step_ok: "size_info_ok info \<Longrightarrow> size_info_ok (param_step info p)"
proof (cases p)
  case None
  assume "size_info_ok info"
  with None show ?thesis by (simp add: param_step_def)
next
  case (Some t)
  assume ok: "size_info_ok info"
  define n where "n = get_numel t"
  define sb where "sb = n * int (element_size t)"
  have n: "0 \<le> n" by (simp add: n_def get_numel_nonneg)
  then have sb: "0 \<le> sb" by (simp add: sb_def)
  have "param_step info p =
      (let info1 = info\<lparr> param_size := param_size info + n,
                             param_size_bytes := param_size_bytes info + sb \<rparr>;
           info2 = (if requires_grad t
                    then info1\<lparr> trainable_param_size := trainable_param_size info1 + n,
                                trainable_param_size_bytes :=
                                  trainable_param_size_bytes info1 + sb \<rparr>
                    else info1)
       in info2\<lparr> total_size := total_size info2 + n,
                  total_size_bytes := total_size_bytes info2 + sb \<rparr>)"
    by (simp add: param_step_def Some Let_def n_def sb_def)
  with ok n sb show ?thesis
    by (simp add: size_info_ok_def Let_def)
qed

lemma buffer_step_ok: "size_info_ok info \<Longrightarrow> size_info_ok (buffer_step info b)"
  by (cases b) (simp_all add: buffer_step_def size_info_ok_def Let_def)

lemma foldl_param_step_ok:
  "size_info_ok info \<Longrightarrow> size_info_ok (foldl param_step info ps)"
  by (induction ps arbitrary: info) (simp_all add: param_step_ok)

lemma foldl_buffer_step_ok:
  "size_info_ok info \<Longrightarrow> size_info_ok (foldl buffer_step info bs)"
  by (induction bs arbitrary: info) (simp_all add: buffer_step_ok)

lemma init_ok: "size_info_ok (ModuleSizeInfo_init None None None None None None None None)"
  by (simp add: size_info_ok_def ModuleSizeInfo_init_def)

text \<open>
  C9: for every module, the record returned by \<open>get_module_size_info\<close> has
  \<open>total_size = param_size + buffer_size\<close>,
  \<open>total_size_bytes = param_size_bytes + buffer_size_bytes\<close>,
  \<open>trainable_param_size \<le> param_size\<close>,
  \<open>trainable_param_size_bytes \<le> param_size_bytes\<close>, and none of its eight fields is
  negative.
\<close>

theorem get_module_size_info_invariant:
  "total_size (get_module_size_info m)
     = param_size (get_module_size_info m) + buffer_size (get_module_size_info m) \<and>
   total_size_bytes (get_module_size_info m)
     = param_size_bytes (get_module_size_info m) + buffer_size_bytes (get_module_size_info m) \<and>
   trainable_param_size (get_module_size_info m) \<le> param_size (get_module_size_info m) \<and>
   trainable_param_size_bytes (get_module_size_info m)
     \<le> param_size_bytes (get_module_size_info m) \<and>
   0 \<le> param_size (get_module_size_info m) \<and>
   0 \<le> param_size_bytes (get_module_size_info m) \<and>
   0 \<le> trainable_param_size (get_module_size_info m) \<and>
   0 \<le> trainable_param_size_bytes (get_module_size_info m) \<and>
   0 \<le> buffer_size (get_module_size_info m) \<and>
   0 \<le> buffer_size_bytes (get_module_size_info m) \<and>
   0 \<le> total_size (get_module_size_info m) \<and>
   0 \<le> total_size_bytes (get_module_size_info m)"
proof -
  have "size_info_ok (get_module_size_info m)"
    unfolding get_module_size_info_def
    by (intro foldl_buffer_step_ok foldl_param_step_ok init_ok)
  then show ?thesis by (simp add: size_info_ok_def)
qed

section \<open>Iterating a module list\<close>

lemma keep_all_enumerate:
  "map snd (filter (\<lambda>(idx, m). True) (enumerate n xs)) = xs"
  by (simp add: case_prod_unfold)

lemma ModuleList_iter_inactive:
  "\<not> (float_gt (drop_p self) (Finite 0) \<and> training self) \<Longrightarrow>
   ModuleList_iter draw self g = (submodules self, g)"
  by (auto simp add: ModuleList_iter_def keep_all_enumerate)

text \<open>
  C10: iterating a \<open>ModuleList\<close> whose \<open>drop_p\<close> is \<open>0.0\<close>, or that is not in training
  mode, yields exactly the underlying list of submodules (each once, in insertion order)
  and draws no random number; whenever the yielded list differs from the underlying one,
  \<open>drop_p > 0.0\<close> holds and the list is in training mode.
\<close>

theorem ModuleList_iter_drop_only_training:
  "(drop_p self = Finite 0 \<or> \<not> training self \<longrightarrow>
      ModuleList_iter draw self g = (submodules self, g)) \<and>
   (fst (ModuleList_iter draw self g) \<noteq> submodules self \<longrightarrow>
      float_gt (drop_p self) (Finite 0) \<and> training self)"
proof (intro conjI impI)
  assume "drop_p self = Finite 0 \<or> \<not> training self"
  then have "\<not> (float_gt (drop_p self) (Finite 0) \<and> training self)" by auto
  then show "ModuleList_iter draw self g = (submodules self, g)"
    by (rule ModuleList_iter_inactive)
next
  assume differs: "fst (ModuleList_iter draw self g) \<noteq> submodules self"
  show "float_gt (drop_p self) (Finite 0)"
  proof (rule ccontr)
    assume "\<not> float_gt (drop_p self) (Finite 0)"
    then have "ModuleList_iter draw self g = (submodules self, g)"
      by (intro ModuleList_iter_inactive) simp
    with differs show False by simp
  qed
next
  assume differs: "fst (ModuleList_iter draw self g) \<noteq> submodules self"
  show "training self"
  proof (rule ccontr)
    assume "\<not> training self"
    then have "ModuleList_iter draw self g = (submodules self, g)"
      by (intro ModuleList_iter_inactive) simp
    with differs show False by simp
  qed
qed

text \<open>
  Three layers with \<open>drop_p = 0.0\<close> in training mode are all yielded; with
  \<open>drop_p = 0.5\<close> and a generator that returns \<open>0.25\<close>, \<open>0.75\<close>, \<open>0.25\<close> only the
  second one is.
\<close>

theorem ModuleList_iter_drop_only_training_witness:
  "ModuleList_iter (\<lambda>g. (Finite (1/4), Suc g))
     \<lparr> submodules = [''layer1'', ''layer2'', ''layer3''], drop_p = Finite 0, training = True \<rparr> (0::nat)
     = ([''layer1'', ''layer2'', ''layer3''], 0) \<and>
   fst (ModuleList_iter (\<lambda>g. (if even g then Finite (1/4) else Finite (3/4), Suc g))
     \<lparr> submodules = [''layer1'', ''layer2'', ''layer3''], drop_p = Finite (1/2), training = True \<rparr>
     (0::nat)) = [''layer2''] \<and>
   float_gt (Finite (1/2)) (Finite 0)"
proof -
  let ?m0 = "\<lparr> submodules = [''layer1'', ''layer2'', ''layer3''], drop_p = Finite 0,
               training = True \<rparr>"
  let ?m1 = "\<lparr> submodules = [''layer1'', ''layer2'', ''layer3''], drop_p = Finite (1/2),
               training = True \<rparr>"
  let ?d1 = "\<lambda>g::nat. (if even g then Finite (1/4) else Finite (3/4), Suc g)"
  have run: "fst (ModuleList_iter ?d1 ?m1 0) = [''layer2'']"
    by (simp add: ModuleList_iter_def enumerate_eq_zip upt_rec numeral_3_eq_3)
  have a: "ModuleList_iter (\<lambda>g. (Finite (1/4), Suc g)) ?m0 (0::nat) = (submodules ?m0, 0)"
    using ModuleList_iter_drop_only_training [of ?m0 "\<lambda>g. (Finite (1/4), Suc g)" "0::nat"]
    by simp
  have b: "float_gt (drop_p ?m1) (Finite 0) \<and> training ?m1"
    using ModuleList_iter_drop_only_training [of ?m1 ?d1 "0::nat"] run
    by simp
  from a b run show ?thesis by simp
qed

section \<open>The generic speech dataset is a stub\<close>

text \<open>
  C6: for every combination of arguments, \<open>GenericSpeechDataset.create_reader\<close> raises
  \<open>NotSupportedError\<close>, returns no reader and leaves the world as it was;
  \<open>splits\<close> returns the empty set; \<open>from_path\<close> returns a \<open>GenericSpeechDataset\<close>
  for every path and name.
\<close>

theorem GenericSpeechDataset_is_stub:
  "create_reader self split gang min_audio_len max_audio_len batching options w
     = (Inl (NotSupportedError ''not supported yet.''), w) \<and>
   splits self = {} \<and>
   from_path path name = GenericSpeechDataset"
  by (simp add: create_reader_def splits_def from_path_def)

section \<open>Construction and field access of the configuration dataclasses\<close>




section \<open>The walk of the configuration processor\<close>

lemma process_fields_append:
  "process_fields recurse (fs1 @ fs2) w =
     (case process_fields recurse fs1 w of
        Some (None, w') \<Rightarrow> process_fields recurse fs2 w'
      | r \<Rightarrow> r)"
proof (induction fs1 arbitrary: w)
  case Nil
  show ?case by simp
next
  case (Cons fv fs1)
  obtain f b where fv: "fv = (f, b)" by (cases fv)
  show ?case
    by (simp add: fv Cons.IH split: option.split prod.split pyerror.split)
qed















lemma process_cyclic_no_return: "process depth cyclic_heap Map.empty a w = None"
  by (induction depth arbitrary: a w) (simp_all add: cyclic_heap_def run_section_handler_def)







lemma process_fields_raises:
  assumes "process_fields recurse pre w0 = Some (None, w1)"
    and "recurse b w1 = Some (Some ex, w2)"
  shows "process_fields recurse (pre @ (f, b) # post) w0 =
     Some (Some (case ex of
                   StructureError m c \<Rightarrow>
                     StructureError
                       (''`'' @ f @ ''` cannot be structured. See the nested exception for details.'')
                       (Some ex)
                 | _ \<Rightarrow> ex), w2)"
  using assms by (cases ex) (simp_all add: process_fields_append)

text \<open>
  C5: for every dataclass configuration and every field \<open>f\<close> of it: when the handler of
  the configuration and the fields before \<open>f\<close> have been processed without an exception
  and processing the value of \<open>f\<close> raises a \<open>StructureError\<close>, then \<open>process\<close> raises a
  new \<open>StructureError\<close> whose message names \<open>f\<close> and whose cause is the original one; an
  exception of any other class leaves \<open>process\<close> as it is.
\<close>

theorem process_wraps_StructureError:
  assumes "H a = DataclassInstance kls (pre @ (f, b) # post)"
    and "run_section_handler hs kls a w = (None, w0)"
    and "process_fields (process depth H hs) pre w0 = Some (None, w1)"
    and "process depth H hs b w1 = Some (Some ex, w2)"
  shows "(\<forall>m c. ex = StructureError m c \<longrightarrow>
            process (Suc depth) H hs a w =
              Some (Some (StructureError
                (''`'' @ f @ ''` cannot be structured. See the nested exception for details.'')
                (Some (StructureError m c))), w2)) \<and>
         ((\<forall>m c. ex \<noteq> StructureError m c) \<longrightarrow>
            process (Suc depth) H hs a w = Some (Some ex, w2))"
proof -
  have "process (Suc depth) H hs a w =
      process_fields (process depth H hs) (pre @ (f, b) # post) w0"
    using assms(1,2) by simp
  also have "\<dots> = Some (Some (case ex of
                   StructureError m c \<Rightarrow>
                     StructureError
                       (''`'' @ f @ ''` cannot be structured. See the nested exception for details.'')
                       (Some ex)
                 | _ \<Rightarrow> ex), w2)"
    using assms(3,4) by (rule process_fields_raises)
  finally show ?thesis by (cases ex) simp_all
qed

lemma failing_dataset:
  "process (Suc (Suc 0)) recipe_heap (failing_handlers ex) 3 w = Some (Some ex, w @ [''dataset''])"
  by (simp add: recipe_heap_def failing_handlers_def run_section_handler_def)

lemma failing_pre:
  "process_fields (process (Suc (Suc 0)) recipe_heap (failing_handlers ex))
     [(''model'', 1), (''max_steps'', 2)] w = Some (None, w)"
  by (simp add: recipe_heap_def failing_handlers_def run_section_handler_def)

text \<open>
  The handler of the dataset section raises: a \<open>StructureError\<close> reaches the caller of
  \<open>process\<close> wrapped under the field name \<open>dataset\<close>, a \<open>ValueError\<close> unchanged.
\<close>

theorem process_wraps_StructureError_witness:
  "process (Suc (Suc (Suc 0))) recipe_heap
       (failing_handlers (StructureError ''path must be absolute'' None)) 0 [] =
     Some (Some (StructureError
       ''`dataset` cannot be structured. See the nested exception for details.''
       (Some (StructureError ''path must be absolute'' None))), [''recipe'', ''dataset'']) \<and>
   process (Suc (Suc (Suc 0))) recipe_heap
       (failing_handlers (ValueError ''path must be absolute'')) 0 [] =
     Some (Some (ValueError ''path must be absolute''), [''recipe'', ''dataset''])"
proof -
  have obj: "recipe_heap 0 = DataclassInstance ''RecipeConfig''
      ([(''model'', 1), (''max_steps'', 2)] @ (''dataset'', 3) # [])"
    by (simp add: recipe_heap_def)
  have hdl: "run_section_handler (failing_handlers ex) ''RecipeConfig'' 0 [] = (None, [''recipe''])"
    for ex
    by (simp add: failing_handlers_def run_section_handler_def)
  have a: "process (Suc (Suc (Suc 0))) recipe_heap
       (failing_handlers (StructureError ''path must be absolute'' None)) 0 [] =
     Some (Some (StructureError
       ''`dataset` cannot be structured. See the nested exception for details.''
       (Some (StructureError ''path must be absolute'' None))), [''recipe'', ''dataset''])"
    using process_wraps_StructureError [OF obj hdl failing_pre failing_dataset,
        of "StructureError ''path must be absolute'' None"]
    by simp
  have b: "process (Suc (Suc (Suc 0))) recipe_heap
       (failing_handlers (ValueError ''path must be absolute'')) 0 [] =
     Some (Some (ValueError ''path must be absolute''), [''recipe'', ''dataset''])"
    using process_wraps_StructureError [OF obj hdl failing_pre failing_dataset,
        of "ValueError ''path must be absolute''"]
    by simp
  from a b show ?thesis by simp
qed

section \<open>Registration and loading of tokenizer families\<close>



lemma create_handler_both:
  "create_handler fam kls (Some L) (Some A) resolver =
     Inl (ValueError ''`loader` and `advanced_loader` must not be specified at the same time.'')"
  by (simp add: create_handler_def)

lemma create_handler_neither:
  "create_handler fam kls None None resolver =
     Inl (ValueError ''`loader` or `advanced_loader` must be specified.'')"
  by (simp add: create_handler_def)





lemma load_tokenizer_default_config:
  assumes "card_tokenizer_uri acard = Inr u"
    and "scheme u \<in> supported_schemes (h_asset_download_manager self)"
    and "download_tokenizer (h_asset_download_manager self) u (card_name acard) progress w
           = (Inr path, w1)"
    and "get_tokenizer_config self acard w1 = (Inr c, w2)"
  shows "load_tokenizer self acard None progress w =
     (case h_loader self path c w2 of
        (Inr tokenizer, w3) \<Rightarrow> (Inr tokenizer, w3)
      | (Inl ex, w3) \<Rightarrow>
          (Inl (load_tokenizer_except (card_name acard) (h_family self) u path False ex), w3))"
  using assms by (simp add: load_tokenizer_def)

lemma load_tokenizer_custom_config:
  assumes "card_tokenizer_uri acard = Inr u"
    and "scheme u \<in> supported_schemes (h_asset_download_manager self)"
    and "download_tokenizer (h_asset_download_manager self) u (card_name acard) progress w
           = (Inr path, w1)"
    and "isinstance c (h_config_kls self)"
  shows "load_tokenizer self acard (Some c) progress w =
     (case h_loader self path c w1 of
        (Inr tokenizer, w3) \<Rightarrow> (Inr tokenizer, w3)
      | (Inl ex, w3) \<Rightarrow>
          (Inl (load_tokenizer_except (card_name acard) (h_family self) u path True ex), w3))"
  using assms by (simp add: load_tokenizer_def)

lemma load_tokenizer_wrong_type:
  assumes "card_tokenizer_uri acard = Inr u"
    and "scheme u \<in> supported_schemes (h_asset_download_manager self)"
    and "download_tokenizer (h_asset_download_manager self) u (card_name acard) progress w
           = (Inr path, w1)"
    and "\<not> isinstance c (h_config_kls self)"
  shows "load_tokenizer self acard (Some c) progress w =
     (Inl (TypeError
             (''`config` must be of type `'' @ class_repr (kls_name (h_config_kls self)) @
              ''`, but is of type `'' @ class_repr (obj_type c) @ ''` instead.'')), w1)"
  using assms by (simp add: load_tokenizer_def)


text \<open>
  C3: \<open>load_tokenizer\<close> wraps a \<open>ValueError\<close> of the loader into an \<open>AssetCardError\<close>
  that names the card when the caller passed \<open>config=None\<close>, and lets it through
  unchanged when the caller passed its own configuration; a configuration that is not an
  instance of \<open>config_kls\<close> raises \<open>TypeError\<close> and the loader is not called: the world is
  the one the download left.
\<close>

theorem load_tokenizer_ValueError:
  assumes "card_tokenizer_uri acard = Inr u"
    and "scheme u \<in> supported_schemes (h_asset_download_manager self)"
    and "download_tokenizer (h_asset_download_manager self) u (card_name acard) progress w
           = (Inr path, w1)"
  shows
   "(get_tokenizer_config self acard w1 = (Inr c, w2) \<and>
     h_loader self path c w2 = (Inl (ValueError m), w3) \<longrightarrow>
       load_tokenizer self acard None progress w =
         (Inl (AssetCardError (card_name acard)
                 (''tokenizer_config field of the '' @ card_name acard @
                  '' asset card is not a valid '' @ h_family self @
                  '' tokenizer configuration.'')
                 (Some (ValueError m))), w3)) \<and>
    (isinstance c (h_config_kls self) \<and>
     h_loader self path c w1 = (Inl (ValueError m), w3) \<longrightarrow>
       load_tokenizer self acard (Some c) progress w = (Inl (ValueError m), w3)) \<and>
    (\<not> isinstance c (h_config_kls self) \<longrightarrow>
       load_tokenizer self acard (Some c) progress w =
         (Inl (TypeError
                 (''`config` must be of type `'' @ class_repr (kls_name (h_config_kls self)) @
                  ''`, but is of type `'' @ class_repr (obj_type c) @ ''` instead.'')), w1))"
proof (intro conjI impI)
  assume "get_tokenizer_config self acard w1 = (Inr c, w2) \<and>
     h_loader self path c w2 = (Inl (ValueError m), w3)"
  then show "load_tokenizer self acard None progress w =
         (Inl (AssetCardError (card_name acard)
                 (''tokenizer_config field of the '' @ card_name acard @
                  '' asset card is not a valid '' @ h_family self @
                  '' tokenizer configuration.'')
                 (Some (ValueError m))), w3)"
    using load_tokenizer_default_config [OF assms, of c w2]
    by (simp add: load_tokenizer_except_def)
next
  assume "isinstance c (h_config_kls self) \<and>
     h_loader self path c w1 = (Inl (ValueError m), w3)"
  then show "load_tokenizer self acard (Some c) progress w = (Inl (ValueError m), w3)"
    using load_tokenizer_custom_config [OF assms, of c]
    by (simp add: load_tokenizer_except_def)
next
  assume "\<not> isinstance c (h_config_kls self)"
  then show "load_tokenizer self acard (Some c) progress w =
         (Inl (TypeError
                 (''`config` must be of type `'' @ class_repr (kls_name (h_config_kls self)) @
                  ''`, but is of type `'' @ class_repr (obj_type c) @ ''` instead.'')), w1)"
    using load_tokenizer_wrong_type [OF assms] by simp
qed


lemma tok_card_uri:
  "card_tokenizer_uri (tok_card sch) = Inr \<lparr> scheme = sch, uri_rest = ''tok.model'' \<rparr>"
  by (simp add: tok_card_def)

lemma spm_download:
  "download_tokenizer (h_asset_download_manager (spm_handler ex))
     \<lparr> scheme = sch, uri_rest = ''tok.model'' \<rparr> (card_name (tok_card sch)) progress w
   = (Inr ''/cache/tok.model'', w @ [''download''])"
  by (simp add: spm_handler_def log_download_manager_def)

lemma spm_default_config:
  "get_tokenizer_config (spm_handler ex) (tok_card sch) w = (Inr spm_config, w @ [''config''])"
  by (simp add: get_tokenizer_config_def spm_handler_def spm_kls_def log_config_loader_def)

lemma spm_load:
  "h_loader (spm_handler ex) path c w = (Inl ex, w @ [''load''])"
  by (simp add: spm_handler_def raising_loader_def)

lemma spm_instances:
  "isinstance spm_config (h_config_kls (spm_handler ex))"
  "\<not> isinstance other_config (h_config_kls (spm_handler ex))"
  by (simp_all add: isinstance_def spm_handler_def spm_kls_def spm_config_def other_config_def)

lemma spm_schemes:
  "''https'' \<in> supported_schemes (h_asset_download_manager (spm_handler ex))"
  "''file'' \<in> supported_schemes (h_asset_download_manager (spm_handler ex))"
  "''s3'' \<notin> supported_schemes (h_asset_download_manager (spm_handler ex))"
  by (simp_all add: spm_handler_def log_download_manager_def)

text \<open>
  The three cases on the logging family, whose loader raises \<open>ValueError\<close>.
\<close>

theorem load_tokenizer_ValueError_witness:
  "load_tokenizer (spm_handler (ValueError ''bad vocabulary'')) (tok_card ''https'') None True []
     = (Inl (AssetCardError ''mytok''
               ''tokenizer_config field of the mytok asset card is not a valid sentencepiece tokenizer configuration.''
               (Some (ValueError ''bad vocabulary''))), [''download'', ''config'', ''load'']) \<and>
   load_tokenizer (spm_handler (ValueError ''bad vocabulary'')) (tok_card ''https'')
       (Some spm_config) True []
     = (Inl (ValueError ''bad vocabulary''), [''download'', ''load'']) \<and>
   load_tokenizer (spm_handler (ValueError ''bad vocabulary'')) (tok_card ''https'')
       (Some other_config) True []
     = (Inl (TypeError (''`config` must be of type `'' @ class_repr ''SentencePieceConfig'' @
                        ''`, but is of type `'' @ class_repr ''CharTokenizerConfig'' @
                        ''` instead.'')), [''download''])"
proof -
  let ?h = "spm_handler (ValueError ''bad vocabulary'')"
  have sch: "scheme \<lparr> scheme = ''https'', uri_rest = ''tok.model'' \<rparr>
      \<in> supported_schemes (h_asset_download_manager ?h)"
    by (simp add: spm_schemes)
  note t = load_tokenizer_ValueError [OF tok_card_uri sch spm_download,
      where progress = True and w = "[]"]
  note t1 = t [where c = spm_config and ?w2.0 = "[''download'', ''config'']"
      and m = "''bad vocabulary''" and ?w3.0 = "[''download'', ''config'', ''load'']"]
  note t2 = t [where c = spm_config and m = "''bad vocabulary''"
      and ?w3.0 = "[''download'', ''load'']"]
  note t3 = t [where c = other_config]
  have a: "load_tokenizer ?h (tok_card ''https'') None True []
     = (Inl (AssetCardError ''mytok''
               ''tokenizer_config field of the mytok asset card is not a valid sentencepiece tokenizer configuration.''
               (Some (ValueError ''bad vocabulary''))), [''download'', ''config'', ''load''])"
    using t1 by (simp add: spm_default_config spm_load) (simp add: tok_card_def spm_handler_def)
  have b: "load_tokenizer ?h (tok_card ''https'') (Some spm_config) True []
     = (Inl (ValueError ''bad vocabulary''), [''download'', ''load''])"
    using t2 by (simp add: spm_instances spm_load)
  have c: "load_tokenizer ?h (tok_card ''https'') (Some other_config) True []
     = (Inl (TypeError (''`config` must be of type `'' @ class_repr ''SentencePieceConfig'' @
                        ''`, but is of type `'' @ class_repr ''CharTokenizerConfig'' @
                        ''` instead.'')), [''download''])"
    using t3 by (simp add: spm_instances) (simp add: spm_handler_def spm_kls_def other_config_def)
  from a b c show ?thesis by simp
qed




end
